theory Spec2Isabelle
  imports Complex_Main
begin

section \<open>The split-test engine of \<^verbatim>\<open>src/unnamed/part_003\<close>\<close>

text \<open>
  The script assigns a visitor to a variation of each experiment, keeps the assignment in a
  cookie \<^verbatim>\<open>btab_<eid>\<close>, and reports visits, goals and conversions. The
  functions below are its functions, with the browser state they touch made explicit:
  the cookie jar, the timer map, the random numbers drawn and the trace of visible effects.
  An exception of the script is the outcome \<open>Threw\<close>, returned with the state reached
  when it was raised.
\<close>

subsection \<open>Data\<close>

datatype error = SyntaxError | TypeError

datatype outcome = Done | Threw error

text \<open>
  The text held under a cookie name. \<open>Empty\<close> is the empty string (falsy in the script),
  \<open>Malformed\<close> a non-empty text that \<^verbatim>\<open>JSON.parse\<close> rejects, and \<open>Json d\<close> the text
  \<^verbatim>\<open>JSON.stringify\<close> gives for the document \<open>d\<close>, which \<^verbatim>\<open>JSON.parse\<close> reads back as \<open>d\<close>.
  The documents are those the script writes under the name; JSON of another shape is
  outside the model.
\<close>

datatype 'a stored = Empty | Malformed | Json 'a

text \<open>
  The assignment record of the cookie \<^verbatim>\<open>btab_<eid>\<close>. \<open>conversion\<close> and the
  cells of \<open>goals\<close> are JSON numbers; \<open>None\<close> is a field that is absent (a cell that is
  \<^verbatim>\<open>null\<close>): \<^verbatim>\<open>skippedCookie\<close> writes no \<open>goals\<close>, \<^verbatim>\<open>bt_experiment_w\<close> no \<open>skipped\<close>.
\<close>

record btab =
  eid :: string
  variation :: "string option"
  conversion :: int
  goals :: "int option list option"
  skipped :: "int option"

text \<open>The document of the cookie \<^verbatim>\<open>ab-set-visit\<close>: \<^verbatim>\<open>nextPageVisitData\<close>, or \<^verbatim>\<open>false\<close>.\<close>

record nextPageVisitData =
  nv_eid :: string
  nv_variation :: string
  nv_type :: string
  nv_url :: string
  nv_orderValue :: int

datatype setvisit = VisitData nextPageVisitData | JsFalse

text \<open>The object \<^verbatim>\<open>data\<close> that \<^verbatim>\<open>bt_experiment_w\<close> reports.\<close>

record data =
  d_eid :: string
  d_variation :: string
  d_type :: "string option"
  d_location :: string
  d_orderValue :: int

text \<open>
  The visible effects, in the order the script performs them: the analytics event and the
  beacon of a report (the beacon with the uuid when the experiment is a fingerprint one),
  a navigation, the reveal of the page, of the elements of a variation, a class put on the
  body, the retry that \<^verbatim>\<open>bt_experiment_w\<close> schedules while it waits for a fingerprint, and
  the cookie writes.
\<close>

datatype effect =
    Track data
  | Beacon data "string option"
  | Navigate string
  | ShowPage
  | ShowVariation string string
  | BodyClass string
  | Retry "string option" "string option" "string option" "string option" int
  | WroteBtab string "btab stored"
  | WroteVisit "setvisit stored"

text \<open>A value of the configuration that may be a JSON number or a JSON string.\<close>

datatype scalar = Num int | Str string

text \<open>
  One entry of \<^verbatim>\<open>bt_experiments\<close>, with the fields the engine reads. \<open>goal_times\<close> lists
  the keys of \<^verbatim>\<open>goals\<close> with the \<^verbatim>\<open>time\<close> of each goal (\<open>None\<close> when it has none).
\<close>

record bt_experiment =
  test_winner :: string
  test_type :: string
  full_page_default_page :: string
  page_variations :: "string \<rightharpoonup> string"
  css_test_variations :: nat
  conversion_page :: string
  conversion_time :: int
  goal_times :: "(string \<times> int option) list"
  is_current_user_track :: bool
  test_status :: string
  target_percentage :: scalar
  url_query :: string
  target_option_device_size :: string

text \<open>\<^verbatim>\<open>window.BorlabsCookie\<close>, when the page has it.\<close>

record borlabsCookie =
  checkCookieConsent :: "(string \<Rightarrow> bool) option"
  Consents :: "(string \<Rightarrow> bool) option option"

text \<open>
  What the engine reads and never writes: the configuration, the page and the browser.
  \<open>dom\<close> lists the elements that carry \<^verbatim>\<open>bt-eid\<close> and \<^verbatim>\<open>bt-variation\<close>, in document
  order, with both values. \<open>random n\<close> is the value of the \<open>n\<close>-th call of
  \<^verbatim>\<open>Math.random()\<close>. \<open>to_number\<close> is the conversion of a string to a number that
  \<^verbatim>\<open>==\<close> and \<^verbatim>\<open><\<close> apply (\<open>None\<close> for \<^verbatim>\<open>NaN\<close>).
\<close>

record env =
  bt_experiments :: "string \<rightharpoonup> bt_experiment"
  is_preview :: bool
  is_free :: bool
  post_id :: string
  ab_uuid :: "string option"
  dom :: "(string \<times> string) list"
  location_search :: string
  location_hash :: string
  window_width :: int
  borlabs :: "borlabsCookie option"
  random :: "nat \<Rightarrow> rat"
  to_number :: "string \<Rightarrow> rat option"

text \<open>
  What the engine writes. The cookie jar is kept by name: the assignment cookies in
  \<open>cookies\<close>, under their names \<^verbatim>\<open>btab_<eid>\<close>, and the cookie
  \<^verbatim>\<open>ab-set-visit\<close> in \<open>ab_set_visit\<close>. \<open>timer\<close> is \<^verbatim>\<open>window.abst.timer\<close> with
  its entries in the order \<^verbatim>\<open>Object.entries\<close> lists them, \<open>absttimer\<close> its copy in
  \<^verbatim>\<open>localStorage\<close>, \<open>abactive\<close> the activity flag \<^verbatim>\<open>window.abst.abactive\<close>,
  \<open>drawn\<close> the number of calls of \<^verbatim>\<open>Math.random()\<close> so far. \<open>fired\<close> is not a
  variable of the script: it is the history of its countdowns, the keys of the timers for
  which \<^verbatim>\<open>abstOneSecond\<close> has called \<^verbatim>\<open>abstConvert\<close> or \<^verbatim>\<open>abstGoal\<close>, in the order
  of the calls; nothing reads it.
\<close>

record world =
  cookies :: "string \<rightharpoonup> btab stored"
  ab_set_visit :: "setvisit stored option"
  timer :: "(string \<times> int) list"
  absttimer :: "(string \<times> int) list"
  abactive :: bool
  trace :: "effect list"
  drawn :: nat
  fired :: "string list"

subsection \<open>Values of the script\<close>

text \<open>\<^verbatim>\<open>!x\<close> is false exactly for a string that is present and not empty.\<close>

definition truthy :: "string option \<Rightarrow> bool" where
  "truthy x = (case x of None \<Rightarrow> False | Some s \<Rightarrow> s \<noteq> [])"

text \<open>The text a cookie read gives is truthy when it is there and not empty.\<close>

definition present :: "'a stored option \<Rightarrow> bool" where
  "present c = (case c of None \<Rightarrow> False | Some Empty \<Rightarrow> False | Some _ \<Rightarrow> True)"

text \<open>The value of a decimal digit, by its character code.\<close>

definition digit :: "char \<Rightarrow> nat option" where
  "digit c = (let n = (of_char c :: nat) in if 48 \<le> n \<and> n \<le> 57 then Some (n - 48) else None)"

fun digits_value :: "string \<Rightarrow> nat \<Rightarrow> nat option" where
  "digits_value [] acc = Some acc"
| "digits_value (c # cs) acc =
    (case digit c of None \<Rightarrow> None | Some d \<Rightarrow> digits_value cs (10 * acc + d))"

text \<open>
  A property key is an array index when it is the decimal numeral of a number below
  \<open>2^32 - 1\<close>, without leading zeros.
\<close>

definition array_index :: "string \<Rightarrow> nat option" where
  "array_index s =
    (case s of
       [] \<Rightarrow> None
     | c # cs \<Rightarrow>
         if c = CHR ''0'' \<and> cs \<noteq> [] then None
         else (case digits_value s 0 of
                 None \<Rightarrow> None
               | Some n \<Rightarrow> if n < 4294967295 then Some n else None))"

text \<open>
  \<^verbatim>\<open>goals[key]\<close> read from a parsed array, and \<^verbatim>\<open>goals[key] = 1\<close> as
  \<^verbatim>\<open>JSON.stringify\<close> stores it. At an index the cell is read (\<open>None\<close> for a hole, for
  \<^verbatim>\<open>null\<close> and beyond the end) and written, the array growing by holes up to the index. The
  key \<^verbatim>\<open>length\<close> reads the length of the array, and writing 1 to it cuts the array to its
  first cell, or makes it one hole. Under any other key an array has a method, or nothing:
  the value read is not a number, and the value written is a plain property, which
  \<^verbatim>\<open>JSON.stringify\<close> leaves out.

  The arrays and the texts of the model are as long as the language allows (an array has
  less than \<open>2^32\<close> cells and its text stays below the \<open>2^53 - 1\<close> characters of a
  string). A browser with a lower limit of its own throws a \<^verbatim>\<open>RangeError\<close> from
  \<^verbatim>\<open>JSON.stringify\<close> for a \<open>goals\<close> array of some hundred million cells; that limit
  is not part of the model.
\<close>

definition goal_cell :: "int option list \<Rightarrow> string option \<Rightarrow> int option" where
  "goal_cell gs key =
    (case key of
       None \<Rightarrow> None
     | Some k \<Rightarrow>
        if k = ''length'' then Some (int (length gs))
        else (case array_index k of
                None \<Rightarrow> None
              | Some i \<Rightarrow> if i < length gs then gs ! i else None))"

definition set_goal :: "int option list \<Rightarrow> string option \<Rightarrow> int option list" where
  "set_goal gs key =
    (case key of
       None \<Rightarrow> gs
     | Some k \<Rightarrow>
        if k = ''length'' then take 1 gs @ replicate (1 - length gs) None
        else (case array_index k of
                None \<Rightarrow> gs
              | Some i \<Rightarrow>
                  if i < length gs then gs[i := Some 1]
                  else gs @ replicate (i - length gs) None @ [Some 1]))"

subsection \<open>Cookies\<close>

definition abstGetCookie :: "string \<Rightarrow> world \<Rightarrow> btab stored option" where
  "abstGetCookie c_name w = cookies w c_name"

definition abstSetCookie :: "string \<Rightarrow> btab stored \<Rightarrow> world \<Rightarrow> world" where
  "abstSetCookie c_name v w =
     w\<lparr>cookies := (cookies w)(c_name \<mapsto> v), trace := trace w @ [WroteBtab c_name v]\<rparr>"

definition getVisitCookie :: "world \<Rightarrow> setvisit stored option" where
  "getVisitCookie w = ab_set_visit w"

definition setVisitCookie :: "setvisit stored \<Rightarrow> world \<Rightarrow> world" where
  "setVisitCookie v w = w\<lparr>ab_set_visit := Some v, trace := trace w @ [WroteVisit v]\<rparr>"

definition emit :: "effect \<Rightarrow> world \<Rightarrow> world" where
  "emit e w = w\<lparr>trace := trace w @ [e]\<rparr>"

text \<open>
  \<^verbatim>\<open>window.abst.timer[k] = v\<close>. A key the object has keeps its place. A new key that is an
  array index goes before the first key that is a larger index or no index, any other new
  key to the end: \<^verbatim>\<open>Object.entries\<close> lists the index keys first, in ascending order,
  then the other keys in the order they were added.
\<close>

fun insert_timer :: "string \<Rightarrow> int \<Rightarrow> (string \<times> int) list \<Rightarrow> (string \<times> int) list" where
  "insert_timer k v [] = [(k, v)]"
| "insert_timer k v ((k', v') # rest) =
    (if (case array_index k of
           None \<Rightarrow> False
         | Some n \<Rightarrow> (case array_index k' of None \<Rightarrow> True | Some n' \<Rightarrow> n < n'))
     then (k, v) # (k', v') # rest
     else (k', v') # insert_timer k v rest)"

definition set_timer :: "string \<Rightarrow> int \<Rightarrow> world \<Rightarrow> world" where
  "set_timer k v w =
     w\<lparr>timer := (if k \<in> set (map fst (timer w))
                  then map (\<lambda>(k', v'). if k' = k then (k', v) else (k', v')) (timer w)
                  else insert_timer k v (timer w))\<rparr>"

subsection \<open>Reporting: \<^verbatim>\<open>bt_experiment_w\<close>\<close>

definition starts_with :: "string \<Rightarrow> string \<Rightarrow> bool" where
  "starts_with s p = (take (length p) s = p)"

definition abRedirectUrl :: "env \<Rightarrow> string \<Rightarrow> string" where
  "abRedirectUrl e url =
    (let url' = url @ location_search e @ location_hash e
     in if starts_with url' ''http'' \<or> starts_with url' ''/'' then url' else ''/'' @ url')"

text \<open>The goal timers a visit registers: one for each goal whose \<^verbatim>\<open>time\<close> is above 0.\<close>

fun goal_timers :: "string \<Rightarrow> (string \<times> int option) list \<Rightarrow> world \<Rightarrow> world" where
  "goal_timers i [] w = w"
| "goal_timers i ((key, t) # gs) w =
    goal_timers i gs
      (case t of
         None \<Rightarrow> w
       | Some n \<Rightarrow> if n > 0 then set_timer (''goal-'' @ i @ ''-'' @ key) n w else w)"

text \<open>
  \<^verbatim>\<open>bt_experiment_w(eid, variation, type, url, orderValue)\<close>. An argument that is
  \<^verbatim>\<open>undefined\<close> or \<^verbatim>\<open>false\<close> is \<open>None\<close>. \<^verbatim>\<open>btab_track_event\<close> is the effect
  \<open>Track\<close>, \<^verbatim>\<open>navigator.sendBeacon\<close> the effect \<open>Beacon\<close>; the script goes on after
  \<^verbatim>\<open>window.location.replace\<close>, so a navigation is an effect like the others.
\<close>

definition bt_experiment_w ::
  "env \<Rightarrow> string option \<Rightarrow> string option \<Rightarrow> string option \<Rightarrow> string option \<Rightarrow> int
     \<Rightarrow> world \<Rightarrow> outcome \<times> world" where
  "bt_experiment_w e eid' variation' type' url orderValue w =
    (if variation' = Some ''_bt_skip_'' \<or> is_preview e \<or> \<not> truthy eid' \<or> \<not> truthy variation'
     then (Done, w)
     else
      (case (eid', variation') of
         (Some i, Some v) \<Rightarrow>
           (case (type' = Some ''visit'' \<and> truthy url, url) of
              (True, Some u) \<Rightarrow>
                (Done,
                 emit (Navigate (abRedirectUrl e u))
                   (setVisitCookie
                      (Json (VisitData \<lparr>nv_eid = i, nv_variation = v, nv_type = ''visit'',
                                        nv_url = u, nv_orderValue = orderValue\<rparr>)) w))
            | _ \<Rightarrow>
               (case bt_experiments e i of
                  None \<Rightarrow> (Threw TypeError, w)
                | Some x \<Rightarrow>
                   if conversion_page x = ''fingerprint'' \<and> \<not> truthy (ab_uuid e)
                   then (Done, emit (Retry eid' variation' type' url orderValue) w)
                   else
                    (let d = \<lparr>d_eid = i, d_variation = v, d_type = type',
                              d_location = post_id e, d_orderValue = orderValue\<rparr>;
                         w1 = emit (Track d) w;
                         w2 = (if type' = Some ''visit'' \<and> conversion_page x = ''time''
                               then set_timer i (conversion_time x) w1 else w1);
                         w3 = (if type' = Some ''visit'' then goal_timers i (goal_times x) w2
                               else w2);
                         experiment_vars =
                           \<lparr>eid = i, variation = Some v,
                            conversion = (if type' = Some ''conversion'' then 1 else 0),
                            goals = Some (if type' = Some ''conversion'' \<or> type' = Some ''visit''
                                          then [] else set_goal [] type'),
                            skipped = None\<rparr>;
                         w4 = abstSetCookie (''btab_'' @ i) (Json experiment_vars) w3;
                         w5 = (if url \<noteq> Some ''ex'' \<and> \<not> truthy url then emit ShowPage w4
                               else w4)
                     in (Done,
                         emit (Beacon d (if conversion_page x = ''fingerprint''
                                         then ab_uuid e else None)) w5))))
       | _ \<Rightarrow> (Done, w)))"

subsection \<open>The conversion state machine: \<^verbatim>\<open>abstConvert\<close>, \<^verbatim>\<open>abstGoal\<close>\<close>

text \<open>
  Both read the record, report through \<^verbatim>\<open>bt_experiment_w\<close> and write the record back
  whole. Their messages to the console are left out, but not the exception of a message
  that reads \<^verbatim>\<open>bt_experiments[testId].name\<close> of an experiment the page does not have.
  The handles of the text polls in \<^verbatim>\<open>abst.intervals\<close>, which they clear, are not part of
  the state. A goal is the property key it indexes \<^verbatim>\<open>goals\<close> with: the numeral of its
  number, or the string the caller passes.
\<close>

definition abstConvert :: "env \<Rightarrow> string \<Rightarrow> int \<Rightarrow> world \<Rightarrow> outcome \<times> world" where
  "abstConvert e testId orderValue w =
    (if testId \<noteq> [] then
       (case abstGetCookie (''btab_'' @ testId) w of
          Some Malformed \<Rightarrow> (Threw SyntaxError, w)
        | Some (Json b) \<Rightarrow>
            if conversion b = 0 then
              (case bt_experiment_w e (Some testId) (variation b) (Some ''conversion'') None
                      orderValue w of
                 (Threw x, w') \<Rightarrow> (Threw x, w')
               | (Done, w') \<Rightarrow>
                   (Done, abstSetCookie (''btab_'' @ testId) (Json (b\<lparr>conversion := 1\<rparr>)) w'))
            else (case bt_experiments e testId of
                    None \<Rightarrow> (Threw TypeError, w)
                  | Some x \<Rightarrow> (Done, w))
        | _ \<Rightarrow> (Done, w))
     else (Done, w))"

definition abstGoal :: "env \<Rightarrow> string \<Rightarrow> string \<Rightarrow> world \<Rightarrow> outcome \<times> world" where
  "abstGoal e testId goal w =
    (if testId \<noteq> [] \<and> goal \<noteq> [] then
       (case abstGetCookie (''btab_'' @ testId) w of
          Some Malformed \<Rightarrow> (Threw SyntaxError, w)
        | Some (Json b) \<Rightarrow>
            if conversion b \<noteq> 1 then
              (case goals b of
                 Some gs \<Rightarrow>
                   if goal_cell gs (Some goal) \<noteq> Some 0 then
                     (case bt_experiment_w e (Some testId) (variation b) (Some goal) None 1 w of
                        (Threw x, w') \<Rightarrow> (Threw x, w')
                      | (Done, w') \<Rightarrow>
                          (Done,
                           abstSetCookie (''btab_'' @ testId)
                             (Json (b\<lparr>goals := Some (set_goal gs (Some goal))\<rparr>)) w'))
                   else (Done, abstSetCookie (''btab_'' @ testId) (Json b) w)
               | None \<Rightarrow>
                   (case bt_experiments e testId of
                      None \<Rightarrow> (Threw TypeError, w)
                    | Some x \<Rightarrow> (Done, w)))
            else (Done, w)
        | _ \<Rightarrow> (Done, w))
     else (Done, w))"

subsection \<open>Skipped visitors\<close>

definition skippedCookie :: "string \<Rightarrow> string option \<Rightarrow> world \<Rightarrow> world" where
  "skippedCookie i btv w =
     abstSetCookie (''btab_'' @ i)
       (Json \<lparr>eid = i, variation = btv, conversion = 1, goals = None, skipped = Some 1\<rparr>) w"

text \<open>
  The text a selector or a property key gets for a value: \<^verbatim>\<open>undefined\<close> is spelled out.
\<close>

definition js_string :: "string option \<Rightarrow> string" where
  "js_string x = (case x of None \<Rightarrow> ''undefined'' | Some s \<Rightarrow> s)"

text \<open>\<^verbatim>\<open>toLowerCase\<close>, on the letters A to Z.\<close>

definition lower_char :: "char \<Rightarrow> char" where
  "lower_char c =
    (case map_of (zip ''ABCDEFGHIJKLMNOPQRSTUVWXYZ'' ''abcdefghijklmnopqrstuvwxyz'') c of
       None \<Rightarrow> c
     | Some l \<Rightarrow> l)"

definition toLowerCase :: "string \<Rightarrow> string" where
  "toLowerCase s = map lower_char s"

definition defaultNames :: "string list" where
  "defaultNames = [''original'', ''one'', ''1'', ''default'', ''standard'', ''a'', ''control'']"

text \<open>The elements of the page with \<^verbatim>\<open>bt-eid\<close> equal to \<open>i\<close>: their \<^verbatim>\<open>bt-variation\<close>.\<close>

definition elements_of :: "env \<Rightarrow> string \<Rightarrow> string list" where
  "elements_of e i = map snd (filter (\<lambda>el. fst el = i) (dom e))"

definition first_variation :: "env \<Rightarrow> string \<Rightarrow> string option" where
  "first_variation e i = (case elements_of e i of [] \<Rightarrow> None | v # vs \<Rightarrow> Some v)"

text \<open>
  The loop of \<^verbatim>\<open>showSkippedVisitorDefault\<close> over the elements of an on-page test: every
  element whose lower-cased variation is a default name is shown, and \<^verbatim>\<open>btv\<close> is the
  lower-cased name of the last one.
\<close>

fun show_specials :: "string \<Rightarrow> string list \<Rightarrow> string option \<Rightarrow> world \<Rightarrow> string option \<times> world" where
  "show_specials i [] btv w = (btv, w)"
| "show_specials i (v # vs) btv w =
    (if toLowerCase v \<in> set defaultNames
     then show_specials i vs (Some (toLowerCase v)) (emit (ShowVariation i v) w)
     else show_specials i vs btv w)"

definition showSkippedVisitorDefault :: "env \<Rightarrow> string \<Rightarrow> bool \<Rightarrow> world \<Rightarrow> world" where
  "showSkippedVisitorDefault e i createCookie w =
    (case bt_experiments e i of
       None \<Rightarrow> emit (ShowVariation i (js_string (first_variation e i))) w
     | Some x \<Rightarrow>
        (case (if test_winner x \<noteq> [] \<and> test_type x = ''full_page''
               then (case page_variations x (test_winner x) of
                       Some url \<Rightarrow> (True, emit (Navigate (abRedirectUrl e url)) w)
                     | None \<Rightarrow> (False, emit ShowPage w))
               else (False, w)) of
           (True, w1) \<Rightarrow> w1
         | (False, w1) \<Rightarrow>
            if test_winner x \<noteq> [] \<and> test_type x = ''css_test''
            then emit (BodyClass (''test-css-'' @ i @ ''-'' @ test_winner x)) w1
            else if test_type x = ''full_page''
            then (let w2 = emit ShowPage w1
                  in if createCookie then skippedCookie i (Some (full_page_default_page x)) w2
                     else w2)
            else if test_type x = ''css_test''
            then (let w2 = emit (BodyClass (''test-css-'' @ i @ ''-1'')) w1
                  in if createCookie then skippedCookie i (Some (''test-css-'' @ i @ ''-1'')) w2
                     else w2)
            else if i = [] then w1
            else
             (case show_specials i (elements_of e i) None w1 of
                (Some special, w2) \<Rightarrow>
                  if createCookie then skippedCookie i (Some special) w2 else w2
              | (None, w2) \<Rightarrow>
                  (let btv = first_variation e i;
                       w3 = emit (ShowVariation i (js_string btv)) w2
                   in if createCookie then skippedCookie i btv w3 else w3))))"

subsection \<open>The activity clock and the countdown timers\<close>



fun str_includes :: "string \<Rightarrow> string \<Rightarrow> bool" where
  "str_includes [] p = (p = [])"
| "str_includes (c # cs) p = (starts_with (c # cs) p \<or> str_includes cs p)"

fun split_on :: "char \<Rightarrow> string \<Rightarrow> string list" where
  "split_on c [] = [[]]"
| "split_on c (x # xs) =
    (if x = c then [] # split_on c xs
     else (case split_on c xs of [] \<Rightarrow> [[x]] | p # ps \<Rightarrow> (x # p) # ps))"

















subsection \<open>The visit across a redirect: \<^verbatim>\<open>next_page_visit_report\<close>\<close>


subsection \<open>The assignment resolver\<close>

text \<open>
  \<^verbatim>\<open>getRandomInt(min, max)\<close>, for whole \<open>min\<close> and \<open>max\<close>: it draws the next value of
  \<^verbatim>\<open>Math.random()\<close>.
\<close>

definition getRandomInt :: "env \<Rightarrow> int \<Rightarrow> int \<Rightarrow> world \<Rightarrow> int \<times> world" where
  "getRandomInt e lo hi w =
     (\<lfloor>random e (drawn w) * of_int (hi - lo + 1)\<rfloor> + lo, w\<lparr>drawn := drawn w + 1\<rparr>)"

text \<open>What \<^verbatim>\<open>bt_getQueryVariable\<close> returns: \<^verbatim>\<open>true\<close>, a string or \<^verbatim>\<open>false\<close>.\<close>

datatype query_value = QTrue | QString string | QFalse

fun find_query :: "string \<Rightarrow> string list \<Rightarrow> query_value" where
  "find_query variable [] = QFalse"
| "find_query variable (v # vs) =
    (case split_on CHR ''='' v of
       [] \<Rightarrow> find_query variable vs
     | [p0] \<Rightarrow> if p0 = variable then QTrue else find_query variable vs
     | p0 # p1 # ps \<Rightarrow> if p0 = variable then QString p1 else find_query variable vs)"

definition bt_getQueryVariable :: "env \<Rightarrow> string \<Rightarrow> query_value" where
  "bt_getQueryVariable e variable =
     find_query variable (split_on CHR ''&'' (drop 1 (location_search e)))"

definition is_space :: "char \<Rightarrow> bool" where
  "is_space c = ((of_char c :: nat) \<in> {32, 9, 10, 11, 12, 13})"

definition trim :: "string \<Rightarrow> string" where
  "trim s = rev (dropWhile is_space (rev (dropWhile is_space s)))"

text \<open>The url-query part of the audience rule: the truth value left in \<^verbatim>\<open>targetVisitor\<close>.\<close>

definition url_query_target :: "env \<Rightarrow> bt_experiment \<Rightarrow> bool" where
  "url_query_target e x =
    (if url_query x \<noteq> [] then
       (case split_on CHR ''='' (trim (url_query x)) of
          [k] \<Rightarrow>
            (case bt_getQueryVariable e k of
               QTrue \<Rightarrow> True | QString s \<Rightarrow> s \<noteq> [] | QFalse \<Rightarrow> False)
        | [k, v] \<Rightarrow>
            (case bt_getQueryVariable e k of
               QTrue \<Rightarrow> to_number e v = Some 1
             | QString s \<Rightarrow> v = s
             | QFalse \<Rightarrow> to_number e v = Some 0)
        | _ \<Rightarrow> True)
     else True)"

definition device_size :: "env \<Rightarrow> string" where
  "device_size e =
    (if window_width e > 767 then ''desktop''
     else if window_width e > 479 then ''tablet'' else ''mobile'')"

text \<open>The audience rule: the url query, then the device size.\<close>

definition targetVisitor :: "env \<Rightarrow> bt_experiment \<Rightarrow> bool" where
  "targetVisitor e x =
    (if url_query_target e x \<and> target_option_device_size x \<noteq> ''all''
     then str_includes (target_option_device_size x) (device_size e)
     else url_query_target e x)"

text \<open>
  \<^verbatim>\<open>targetPercentage\<close> after its default, and \<^verbatim>\<open>targetPercentage < percentage\<close>.
  \<^verbatim>\<open>x == ''\<close> holds of the empty string and, the empty string being converted to the
  number 0, of the number 0.
\<close>

definition targetPercentage :: "bt_experiment \<Rightarrow> scalar" where
  "targetPercentage x =
    (case target_percentage x of
       Num n \<Rightarrow> if n = 0 then Num 100 else Num n
     | Str s \<Rightarrow> if s = [] then Num 100 else Str s)"

definition js_less :: "env \<Rightarrow> scalar \<Rightarrow> int \<Rightarrow> bool" where
  "js_less e t p =
    (case t of
       Num n \<Rightarrow> n < p
     | Str s \<Rightarrow> (case to_number e s of None \<Rightarrow> False | Some r \<Rightarrow> r < of_int p))"

datatype consent = Consented | Prevented | ConsentError

definition cookie_consent :: "env \<Rightarrow> consent" where
  "cookie_consent e =
    (case borlabs e of
       None \<Rightarrow> Consented
     | Some b \<Rightarrow>
        (case (case checkCookieConsent b of
                 None \<Rightarrow> False
               | Some chk \<Rightarrow> \<not> chk ''split-test'' \<and> \<not> chk ''ab-split-test'') of
           True \<Rightarrow> Prevented
         | False \<Rightarrow>
            (case Consents b of
               None \<Rightarrow> ConsentError
             | Some None \<Rightarrow> Consented
             | Some (Some has) \<Rightarrow>
                 if \<not> has ''split-test'' \<and> \<not> has ''ab-split-test'' then Prevented
                 else Consented)))"

text \<open>\<^verbatim>\<open>variations[randVar]\<close>: \<^verbatim>\<open>undefined\<close> out of range.\<close>

definition at_index :: "string list \<Rightarrow> int \<Rightarrow> string option" where
  "at_index vs r = (if 0 \<le> r \<and> r < int (length vs) then Some (vs ! nat r) else None)"

text \<open>
  The choice of a variation for a visitor without a record: one draw, and a second one
  in the free version when there are more than two variations.
\<close>

definition random_variation ::
  "env \<Rightarrow> bt_experiment \<Rightarrow> string list \<Rightarrow> world \<Rightarrow> string option \<times> world" where
  "random_variation e x variations w =
    (case getRandomInt e 1 (if test_type x = ''css_test'' then int (css_test_variations x)
                            else int (length variations)) w of
       (r, w1) \<Rightarrow>
         if is_free e \<and> length variations > 2
         then (case getRandomInt e 0 1 w1 of (r', w2) \<Rightarrow> (at_index variations r', w2))
         else (at_index variations (r - 1), w1))"

text \<open>
  How the resolver left an experiment: the \<^verbatim>\<open>return\<close> it took, with the value of
  \<^verbatim>\<open>experimentVariation\<close> where a variation was resolved, or the exception that
  left the callback.
\<close>

datatype resolution =
    NoTest
  | HasWinner
  | NoConsent
  | NotTracked
  | NotPublished
  | Returning "string option"
  | NotTargeted
  | NotInPercentage
  | NoElement
  | Assigned "string option"
  | Failed error

text \<open>
  The callback of \<^verbatim>\<open>jQuery.each(current_exp, ...)\<close> for one experiment. \<open>entries\<close> lists
  the variations of the experiment on the page (\<^verbatim>\<open>current_exp[experimentId]\<close>), each with
  its \<^verbatim>\<open>bt-url\<close> (\<^verbatim>\<open>exp_redirect[experimentId]\<close>), which the page fills together; so
  \<^verbatim>\<open>exp_redirect\<close> has a key whenever the callback runs.
\<close>

definition resolve ::
  "env \<Rightarrow> string \<Rightarrow> (string \<times> string option) list \<Rightarrow> world \<Rightarrow> resolution \<times> world" where
  "resolve e experimentId entries w =
    (case bt_experiments e experimentId of
       None \<Rightarrow> (NoTest, showSkippedVisitorDefault e experimentId False w)
     | Some x \<Rightarrow>
        if test_winner x \<noteq> [] then (HasWinner, w)
        else (case cookie_consent e of
           ConsentError \<Rightarrow> (Failed TypeError, w)
         | Prevented \<Rightarrow> (NoConsent, showSkippedVisitorDefault e experimentId False w)
         | Consented \<Rightarrow>
            if \<not> is_current_user_track x
            then (NotTracked, showSkippedVisitorDefault e experimentId False w)
            else if test_status x \<noteq> ''publish''
            then (NotPublished, showSkippedVisitorDefault e experimentId False w)
            else
             (let variations = map fst entries;
                  btab = abstGetCookie (''btab_'' @ experimentId) w;
                  redirect = (\<lambda>v. case map_of entries (js_string v) of
                                     None \<Rightarrow> None | Some u \<Rightarrow> u)
              in case (if \<not> present btab then random_variation e x variations w
                       else (case btab of
                               Some (Json b) \<Rightarrow> (variation b, w)
                             | _ \<Rightarrow> (Some [], w))) of
                (experimentVariation, w1) \<Rightarrow>
                 (let css = (test_type x = ''css_test'');
                      w2 = (if css \<and> truthy experimentVariation
                            then emit (BodyClass (js_string experimentVariation)) w1 else w1);
                      found = (js_string experimentVariation \<in> set (elements_of e experimentId))
                  in if present btab then
                       (case btab of
                          Some (Json b) \<Rightarrow>
                            (let w3 = (if truthy (redirect experimentVariation) \<and> \<not> is_preview e
                                       then emit (Navigate (abRedirectUrl e
                                                    (js_string (redirect experimentVariation)))) w2
                                       else if css then emit ShowPage w2
                                       else emit (ShowVariation experimentId
                                                    (js_string experimentVariation))
                                              (emit ShowPage w2))
                             in (Returning experimentVariation, w3))
                        | _ \<Rightarrow> (Failed SyntaxError, w2))
                     else if \<not> targetVisitor e x
                     then (NotTargeted, showSkippedVisitorDefault e experimentId False w2)
                     else
                      (case getRandomInt e 1 100 w2 of
                         (percentage, w3) \<Rightarrow>
                           if js_less e (targetPercentage x) percentage
                           then (NotInPercentage,
                                 showSkippedVisitorDefault e experimentId True w3)
                           else if \<not> css \<and> \<not> found
                           then (NoElement, showSkippedVisitorDefault e experimentId False w3)
                           else
                            (let w4 = (if css then w3
                                       else emit (ShowVariation experimentId
                                                    (js_string experimentVariation)) w3)
                             in case bt_experiment_w e (Some experimentId) experimentVariation
                                       (Some ''visit'') (redirect experimentVariation) 1 w4 of
                                  (Threw err, w5) \<Rightarrow> (Failed err, w5)
                                | (Done, w5) \<Rightarrow> (Assigned experimentVariation, w5)))))))"

text \<open>
  The loop \<^verbatim>\<open>jQuery.each(current_exp, ...)\<close>: the callback never returns \<^verbatim>\<open>false\<close>, so
  the loop goes on to the next experiment until an exception leaves it.
\<close>

fun resolve_each ::
  "env \<Rightarrow> (string \<times> (string \<times> string option) list) list \<Rightarrow> world \<Rightarrow> resolution list \<times> world" where
  "resolve_each e [] w = ([], w)"
| "resolve_each e ((experimentId, entries) # rest) w =
    (case resolve e experimentId entries w of
       (Failed err, w') \<Rightarrow> ([Failed err], w')
     | (r, w') \<Rightarrow> (case resolve_each e rest w' of (rs, w'') \<Rightarrow> (r # rs, w'')))"

subsection \<open>A page and a visitor\<close>

text \<open>
  An on-page test \<open>7\<close> with the variations \<open>a\<close> and \<open>b\<close>, published and tracked, on a
  page outside preview; a visitor without cookies, and the visitor of variation \<open>a\<close>
  with a given \<open>conversion\<close> and \<open>goals\<close>.
\<close>

text \<open>
  The conversion of a string of digits to its number; the pages below hold no other
  string that is converted.
\<close>

definition decimal :: "string \<Rightarrow> rat option" where
  "decimal s = (case digits_value s 0 of None \<Rightarrow> None | Some n \<Rightarrow> Some (of_nat n))"

definition shop :: bt_experiment where
  "shop = \<lparr>test_winner = [], test_type = ''ab_test'', full_page_default_page = [],
     page_variations = Map.empty, css_test_variations = 0, conversion_page = ''selector'',
     conversion_time = 0, goal_times = [], is_current_user_track = True,
     test_status = ''publish'', target_percentage = Str ''100'', url_query = [],
     target_option_device_size = ''all''\<rparr>"

definition page :: env where
  "page = \<lparr>bt_experiments = [''7'' \<mapsto> shop], is_preview = False, is_free = False,
     post_id = ''12'', ab_uuid = None, dom = [(''7'', ''a''), (''7'', ''b'')],
     location_search = [], location_hash = [], window_width = 1024, borlabs = None,
     random = (\<lambda>n. 0), to_number = decimal\<rparr>"

definition fresh :: world where
  "fresh = \<lparr>cookies = Map.empty, ab_set_visit = None, timer = [], absttimer = [],
     abactive = True, trace = [], drawn = 0, fired = []\<rparr>"

definition assigned :: "int \<Rightarrow> int option list \<Rightarrow> btab" where
  "assigned c gs =
     \<lparr>eid = ''7'', variation = Some ''a'', conversion = c, goals = Some gs, skipped = None\<rparr>"

definition visitor :: "btab \<Rightarrow> world" where
  "visitor b = fresh\<lparr>cookies := [''btab_7'' \<mapsto> Json b]\<rparr>"

text \<open>The same page with a second test \<open>8\<close>.\<close>

definition two_tests :: env where
  "two_tests = page\<lparr>bt_experiments := [''7'' \<mapsto> shop, ''8'' \<mapsto> shop],
                    dom := [(''7'', ''a''), (''7'', ''b''), (''8'', ''a''), (''8'', ''b'')]\<rparr>"

definition on_page :: "(string \<times> string option) list" where
  "on_page = [(''a'', None), (''b'', None)]"



definition number_zero :: env where
  "number_zero = page\<lparr>bt_experiments := [''7'' \<mapsto> shop\<lparr>target_percentage := Num 0\<rparr>]\<rparr>"

definition string_zero :: env where
  "string_zero = page\<lparr>bt_experiments := [''7'' \<mapsto> shop\<lparr>target_percentage := Str ''0''\<rparr>]\<rparr>"









subsection \<open>Reading a trace\<close>

text \<open>The reports sent to the backend, in order.\<close>

fun beacons :: "effect list \<Rightarrow> data list" where
  "beacons [] = []"
| "beacons (Beacon d u # es) = d # beacons es"
| "beacons (ev # es) = beacons es"

text \<open>
  What \<^verbatim>\<open>bt_experiment_w\<close> followed by the caller's own write adds to the trace for an
  event of type \<open>type'\<close> and order value 1: the analytics event, the record
  \<^verbatim>\<open>bt_experiment_w\<close> writes, the reveal of the page, the beacon, and the record the caller
  writes.
\<close>

definition report :: "env \<Rightarrow> string \<Rightarrow> string \<Rightarrow> string \<Rightarrow> data" where
  "report e i v type' =
     \<lparr>d_eid = i, d_variation = v, d_type = Some type', d_location = post_id e,
      d_orderValue = 1\<rparr>"

definition uuid_sent :: "env \<Rightarrow> bt_experiment \<Rightarrow> string option" where
  "uuid_sent e x = (if conversion_page x = ''fingerprint'' then ab_uuid e else None)"

definition report_trace ::
  "env \<Rightarrow> bt_experiment \<Rightarrow> string \<Rightarrow> string \<Rightarrow> string \<Rightarrow> btab \<Rightarrow> btab \<Rightarrow> effect list" where
  "report_trace e x i v type' first final =
     [Track (report e i v type'),
      WroteBtab (''btab_'' @ i) (Json first),
      ShowPage,
      Beacon (report e i v type') (uuid_sent e x),
      WroteBtab (''btab_'' @ i) (Json final)]"







section \<open>Properties\<close>

lemmas fixtures = shop_def page_def fresh_def assigned_def visitor_def decimal_def digit_def

lemmas resolver_defs = resolve_def abstGetCookie_def cookie_consent_def present_def
  random_variation_def getRandomInt_def at_index_def truthy_def Let_def targetVisitor_def
  url_query_target_def device_size_def targetPercentage_def js_less_def elements_of_def
  js_string_def starts_with_def

lemmas skipped_defs = showSkippedVisitorDefault_def first_variation_def toLowerCase_def
  lower_char_def defaultNames_def skippedCookie_def

lemmas report_defs = bt_experiment_w_def emit_def abstSetCookie_def setVisitCookie_def
  getVisitCookie_def abRedirectUrl_def set_timer_def report_def uuid_sent_def report_trace_def

subsection \<open>Frames: what the helpers leave alone\<close>



subsection \<open>Property keys\<close>

lemma array_index_words:
  "array_index ''visit'' = None" "array_index ''conversion'' = None" "array_index [] = None"
  by (simp_all add: array_index_def digit_def)

lemma goal_cell_Some:
  assumes "goal_cell gs (Some goal) = Some c"
  shows "goal \<noteq> [] \<and> goal \<noteq> ''visit'' \<and> goal \<noteq> ''conversion''"
  using assms array_index_words by (auto simp add: goal_cell_def)

lemma set_goal_same:
  assumes "goal_cell gs (Some goal) = Some 1"
  shows "set_goal gs (Some goal) = gs"
  using assms
  by (auto simp add: goal_cell_def set_goal_def list_update_same_conv
      split: option.splits if_splits)










subsection \<open>The conversion state machine\<close>

text \<open>
  C1. A goal is to be reported on its first completion only, and \<^verbatim>\<open>abstGoal\<close> says so
  (``if its not in the goal''); but its test is \<^verbatim>\<open>btab.goals[goal] !== 0\<close>, and a
  completed goal is stored as 1. So for every unconverted record in which the goal is
  already completed, on a page that reports, the call is not a no-op: it reports the goal
  again (the analytics event and the beacon are sent a second time), and the record,
  overwritten in between by \<^verbatim>\<open>bt_experiment_w\<close>, is written back as it was.
\<close>

theorem abstGoal_reports_a_completed_goal_again:
  assumes "abstGetCookie (''btab_'' @ i) w = Some (Json b)"
    and "conversion b \<noteq> 1" and "goals b = Some gs" and "goal_cell gs (Some goal) = Some 1"
    and "variation b = Some v" and "v \<noteq> []" and "v \<noteq> ''_bt_skip_''" and "i \<noteq> []"
    and "\<not> is_preview e" and "bt_experiments e i = Some x"
    and "conversion_page x = ''fingerprint'' \<longrightarrow> truthy (ab_uuid e)"
  shows "abstGoal e i goal w =
          (Done,
           w\<lparr>cookies := (cookies w)(''btab_'' @ i \<mapsto> Json b),
             trace := trace w @
               report_trace e x i v goal
                 \<lparr>eid = i, variation = Some v, conversion = 0,
                  goals = Some (set_goal [] (Some goal)), skipped = None\<rparr> b\<rparr>)"
proof -
  have g: "goal \<noteq> []" "goal \<noteq> ''visit''" "goal \<noteq> ''conversion''"
    using goal_cell_Some [OF assms(4)] by simp_all
  have same: "b\<lparr>goals := Some (set_goal gs (Some goal))\<rparr> = b"
    using set_goal_same [OF assms(4)] assms(3) by simp
  show ?thesis
    using assms g
    by (auto simp add: abstGoal_def truthy_def Let_def report_defs same)
qed

theorem abstGoal_reports_a_completed_goal_again_witness:
  "beacons (trace (snd (abstGoal page ''7'' ''1'' (visitor (assigned 0 [None, Some 1])))))
     = [report page ''7'' ''a'' ''1'']
   \<and> cookies (snd (abstGoal page ''7'' ''1'' (visitor (assigned 0 [None, Some 1]))))
     = cookies (visitor (assigned 0 [None, Some 1]))"
proof -
  have "abstGetCookie (''btab_'' @ ''7'') (visitor (assigned 0 [None, Some 1]))
          = Some (Json (assigned 0 [None, Some 1]))"
    and "conversion (assigned 0 [None, Some 1]) \<noteq> 1"
    and "goals (assigned 0 [None, Some 1]) = Some [None, Some 1]"
    and "goal_cell [None, Some 1] (Some ''1'') = Some 1"
    and "variation (assigned 0 [None, Some 1]) = Some ''a''"
    and "''a'' \<noteq> []" and "''a'' \<noteq> ''_bt_skip_''" and "''7'' \<noteq> []"
    and "\<not> is_preview page" and "bt_experiments page ''7'' = Some shop"
    and "conversion_page shop = ''fingerprint'' \<longrightarrow> truthy (ab_uuid page)"
    by (simp_all add: fixtures abstGetCookie_def goal_cell_def array_index_def)
  from abstGoal_reports_a_completed_goal_again [OF this]
  show ?thesis by (simp add: fixtures report_trace_def)
qed

text \<open>
  C2. Conversion is terminal. On a record whose \<open>conversion\<close> is 1, \<^verbatim>\<open>abstConvert\<close> and
  \<^verbatim>\<open>abstGoal\<close>, for every goal, leave the whole state as it was: no cookie is written and
  no effect is added to the trace (also when the call ends in an exception). And on a fresh
  record of a configured experiment, \<^verbatim>\<open>abstConvert\<close> followed by \<^verbatim>\<open>abstGoal\<close> of goal 1
  ends with \<open>conversion = 1\<close> and no goal, the goal call changing nothing.
\<close>

theorem conversion_is_terminal:
  "(abstGetCookie (''btab_'' @ i) w = Some (Json b) \<and> conversion b = 1 \<longrightarrow>
      snd (abstConvert e i orderValue w) = w \<and> snd (abstGoal e i goal w) = w)
   \<and> (i \<noteq> [] \<and> bt_experiments e i = Some x \<and>
      abstGetCookie (''btab_'' @ i) w
        = Some (Json \<lparr>eid = i, variation = v, conversion = 0, goals = Some [], skipped = None\<rparr>) \<longrightarrow>
      fst (abstConvert e i orderValue w) = Done \<and>
      abstGoal e i ''1'' (snd (abstConvert e i orderValue w))
        = (Done, snd (abstConvert e i orderValue w)) \<and>
      abstGetCookie (''btab_'' @ i) (snd (abstConvert e i orderValue w))
        = Some (Json \<lparr>eid = i, variation = v, conversion = 1, goals = Some [], skipped = None\<rparr>))"
proof (intro conjI impI)
  assume "abstGetCookie (''btab_'' @ i) w = Some (Json b) \<and> conversion b = 1"
  then show "snd (abstConvert e i orderValue w) = w"
    by (simp add: abstConvert_def split: option.splits)
next
  assume "abstGetCookie (''btab_'' @ i) w = Some (Json b) \<and> conversion b = 1"
  then show "snd (abstGoal e i goal w) = w"
    by (simp add: abstGoal_def split: option.splits)
qed (auto simp add: abstConvert_def bt_experiment_w_def abstGetCookie_def abstSetCookie_def
       emit_def Let_def abstGoal_def
     split: option.splits prod.splits outcome.splits bool.splits)

theorem conversion_is_terminal_witness:
  "snd (abstConvert page ''7'' 1 (visitor (assigned 1 []))) = visitor (assigned 1 [])
   \<and> snd (abstGoal page ''7'' ''1'' (visitor (assigned 1 []))) = visitor (assigned 1 [])
   \<and> abstGetCookie ''btab_7''
        (snd (abstGoal page ''7'' ''1'' (snd (abstConvert page ''7'' 1 (visitor (assigned 0 []))))))
       = Some (Json (assigned 1 []))"
  using conversion_is_terminal [of "''7''" "visitor (assigned 1 [])" "assigned 1 []" page 1
        "''1''" shop "Some ''a''"]
    conversion_is_terminal [of "''7''" "visitor (assigned 0 [])" "assigned 0 []" page 1
        "''1''" shop "Some ''a''"]
  by (simp add: fixtures abstGetCookie_def)

text \<open>
  C9. The record \<^verbatim>\<open>skippedCookie\<close> writes has \<open>conversion = 1\<close> and \<open>skipped = 1\<close>, and
  after it \<^verbatim>\<open>abstConvert\<close> and \<^verbatim>\<open>abstGoal\<close> of that experiment, for every order value and
  goal, leave the whole state as it was: no event, and the record as written.
\<close>

theorem skip_record_is_terminal:
  "abstGetCookie (''btab_'' @ i) (skippedCookie i btv w)
     = Some (Json \<lparr>eid = i, variation = btv, conversion = 1, goals = None, skipped = Some 1\<rparr>)
   \<and> snd (abstConvert e i orderValue (skippedCookie i btv w)) = skippedCookie i btv w
   \<and> snd (abstGoal e i goal (skippedCookie i btv w)) = skippedCookie i btv w"
  by (simp add: abstConvert_def abstGoal_def skippedCookie_def abstGetCookie_def
      abstSetCookie_def split: option.splits)

theorem skip_record_is_terminal_witness:
  "snd (abstConvert page ''7'' 1 (skippedCookie ''7'' (Some ''a'') fresh))
     = skippedCookie ''7'' (Some ''a'') fresh
   \<and> snd (abstGoal page ''7'' ''1'' (skippedCookie ''7'' (Some ''a'') fresh))
     = skippedCookie ''7'' (Some ''a'') fresh
   \<and> trace (skippedCookie ''7'' (Some ''a'') fresh)
     = [WroteBtab ''btab_7'' (Json \<lparr>eid = ''7'', variation = Some ''a'', conversion = 1,
                                     goals = None, skipped = Some 1\<rparr>)]"
  using skip_record_is_terminal [of "''7''" "Some ''a''" fresh page 1 "''1''"]
  by (simp add: skippedCookie_def abstSetCookie_def fresh_def)

subsection \<open>Reporting\<close>

text \<open>
  C10. When \<^verbatim>\<open>eid\<close> is empty or missing, or \<^verbatim>\<open>variation\<close> is empty, missing or the
  sentinel \<^verbatim>\<open>_bt_skip_\<close>, or the page is in preview, \<^verbatim>\<open>bt_experiment_w\<close> returns with the
  state as it was: nothing reported, no cookie written, no timer registered.
\<close>

theorem bt_experiment_w_guard:
  "\<not> truthy eid' \<or> \<not> truthy variation' \<or> variation' = Some ''_bt_skip_'' \<or> is_preview e
   \<Longrightarrow> bt_experiment_w e eid' variation' type' url orderValue w = (Done, w)"
  by (auto simp add: bt_experiment_w_def)

theorem bt_experiment_w_guard_witness:
  "bt_experiment_w page None (Some ''a'') (Some ''visit'') None 1 fresh = (Done, fresh)
   \<and> bt_experiment_w page (Some ''7'') (Some ''_bt_skip_'') (Some ''visit'') None 1 fresh
       = (Done, fresh)
   \<and> bt_experiment_w (page\<lparr>is_preview := True\<rparr>) (Some ''7'') (Some ''a'') (Some ''visit'') None 1
         fresh = (Done, fresh)"
  using bt_experiment_w_guard [of None "Some ''a''" page "Some ''visit''" None 1 fresh]
    bt_experiment_w_guard [of "Some ''7''" "Some ''_bt_skip_''" page "Some ''visit''" None 1
      fresh]
    bt_experiment_w_guard [of "Some ''7''" "Some ''a''" "page\<lparr>is_preview := True\<rparr>"
      "Some ''visit''" None 1 fresh]
  by (simp add: truthy_def)

subsection \<open>The assignment resolver\<close>




lemma percentage_range:
  assumes "0 \<le> random e (drawn w)" and "random e (drawn w) < 1"
  shows "1 \<le> fst (getRandomInt e 1 100 w) \<and> fst (getRandomInt e 1 100 w) \<le> 100"
proof -
  have "0 \<le> random e (drawn w) * 100" using assms(1) by simp
  then have low: "0 \<le> \<lfloor>random e (drawn w) * 100\<rfloor>" by simp
  have "random e (drawn w) * 100 < 100" using assms(2) by simp
  then have high: "\<lfloor>random e (drawn w) * 100\<rfloor> < 100" by (simp add: floor_less_iff)
  show ?thesis using low high by (simp add: getRandomInt_def)
qed

text \<open>
  C4. At 0 percent the gate is to leave out every visitor, but the default
  \<^verbatim>\<open>if(targetPercentage == '') targetPercentage = 100\<close> also takes the number 0, which
  \<^verbatim>\<open>==\<close> equates with the empty string. With \<^verbatim>\<open>target_percentage\<close> the number 0, a
  new visitor who passes the audience rule is never stopped by the gate, whatever the
  roll: the percentage is 100 and the roll is at most 100.
\<close>

theorem number_zero_percentage_samples_every_visitor:
  assumes "bt_experiments e i = Some x" and "test_winner x = []"
    and "cookie_consent e = Consented" and "is_current_user_track x"
    and "test_status x = ''publish''"
    and "\<not> present (abstGetCookie (''btab_'' @ i) w)"
    and "targetVisitor e x"
    and "target_percentage x = Num 0"
    and "\<forall>n. 0 \<le> random e n \<and> random e n < 1"
  shows "fst (resolve e i entries w) \<noteq> NotInPercentage"
proof -
  have inside: "\<not> js_less e (targetPercentage x) p"
    if "getRandomInt e 1 100 u = (p, u')" for u p u'
  proof -
    have "p \<le> 100"
      using percentage_range [of e u] assms(9) that by auto
    then show ?thesis
      using assms(8) by (simp add: targetPercentage_def js_less_def)
  qed
  show ?thesis
    using assms(1-7) inside
    by (auto simp add: resolve_def Let_def split: prod.splits outcome.splits)
qed

theorem number_zero_percentage_samples_every_visitor_witness:
  "fst (resolve number_zero ''7'' on_page fresh) \<noteq> NotInPercentage
   \<and> fst (resolve number_zero ''7'' on_page fresh) = Assigned (Some ''a'')
   \<and> cookies (snd (resolve number_zero ''7'' on_page fresh)) ''btab_7''
       = Some (Json (assigned 0 []))"
proof -
  have "bt_experiments number_zero ''7'' = Some (shop\<lparr>target_percentage := Num 0\<rparr>)"
    and "test_winner (shop\<lparr>target_percentage := Num 0\<rparr>) = []"
    and "cookie_consent number_zero = Consented"
    and "is_current_user_track (shop\<lparr>target_percentage := Num 0\<rparr>)"
    and "test_status (shop\<lparr>target_percentage := Num 0\<rparr>) = ''publish''"
    and "\<not> present (abstGetCookie (''btab_'' @ ''7'') fresh)"
    and "targetVisitor number_zero (shop\<lparr>target_percentage := Num 0\<rparr>)"
    and "target_percentage (shop\<lparr>target_percentage := Num 0\<rparr>) = Num 0"
    and "\<forall>n. 0 \<le> random number_zero n \<and> random number_zero n < 1"
    by (simp_all add: fixtures number_zero_def resolver_defs)
  from number_zero_percentage_samples_every_visitor [OF this, of on_page]
  show ?thesis
    by (simp add: fixtures number_zero_def on_page_def resolver_defs report_defs)
qed

text \<open>With the string \<open>0\<close> the gate holds: every roll is above 0, and the visitor is
  shown the skipped default with a skip record.\<close>

lemma string_zero_percentage_skips_every_visitor:
  assumes "bt_experiments e i = Some x" and "test_winner x = []"
    and "cookie_consent e = Consented" and "is_current_user_track x"
    and "test_status x = ''publish''"
    and "\<not> present (abstGetCookie (''btab_'' @ i) w)"
    and "targetVisitor e x"
    and "target_percentage x = Str ''0''" and "to_number e ''0'' = Some 0"
    and "\<forall>n. 0 \<le> random e n \<and> random e n < 1"
  shows "fst (resolve e i entries w) = NotInPercentage"
proof -
  have inside: "js_less e (targetPercentage x) p"
    if "getRandomInt e 1 100 u = (p, u')" for u p u'
  proof -
    have "1 \<le> p"
      using percentage_range [of e u] assms(10) that by auto
    then show ?thesis
      using assms(8,9) by (simp add: targetPercentage_def js_less_def)
  qed
  show ?thesis
    using assms(1-7) inside
    by (auto simp add: resolve_def Let_def split: prod.splits outcome.splits)
qed

lemma string_zero_percentage_example:
  "resolve string_zero ''7'' on_page fresh
     = (NotInPercentage,
        fresh\<lparr>cookies := [''btab_7'' \<mapsto> Json \<lparr>eid = ''7'', variation = Some ''a'',
                              conversion = 1, goals = None, skipped = Some 1\<rparr>],
              trace := [ShowVariation ''7'' ''a'',
                        WroteBtab ''btab_7'' (Json \<lparr>eid = ''7'', variation = Some ''a'',
                              conversion = 1, goals = None, skipped = Some 1\<rparr>)],
              drawn := 2\<rparr>)"
  by (simp add: fixtures string_zero_def on_page_def resolver_defs skipped_defs emit_def
      abstSetCookie_def)








text \<open>
  C8. A malformed record is to be caught where it is read, and the first
  \<^verbatim>\<open>JSON.parse\<close> of the cookie is inside \<^verbatim>\<open>try\<close>; the second one, under
  \<^verbatim>\<open>if( btab )\<close>, is not. So for a published and tracked test whose cookie holds a
  non-empty text that is not JSON, the callback is left by the \<^verbatim>\<open>SyntaxError\<close> with
  nothing shown, and the loop over the experiments ends there: the experiments after it
  are not resolved.
\<close>

theorem malformed_record_stops_the_resolver:
  assumes "abstGetCookie (''btab_'' @ i) w = Some Malformed"
    and "bt_experiments e i = Some x" and "test_winner x = []"
    and "cookie_consent e = Consented" and "is_current_user_track x"
    and "test_status x = ''publish''"
  shows "resolve e i entries w = (Failed SyntaxError, w)
         \<and> resolve_each e ((i, entries) # rest) w = ([Failed SyntaxError], w)"
proof -
  have "resolve e i entries w = (Failed SyntaxError, w)"
    using assms by (simp add: resolve_def present_def truthy_def Let_def)
  then show ?thesis by simp
qed

theorem malformed_record_stops_the_resolver_witness:
  "resolve_each two_tests [(''7'', on_page), (''8'', on_page)]
      (fresh\<lparr>cookies := [''btab_7'' \<mapsto> Malformed]\<rparr>)
    = ([Failed SyntaxError], fresh\<lparr>cookies := [''btab_7'' \<mapsto> Malformed]\<rparr>)
   \<and> fst (resolve_each two_tests [(''7'', on_page), (''8'', on_page)] fresh)
    = [Assigned (Some ''a''), Assigned (Some ''a'')]"
proof -
  have "abstGetCookie (''btab_'' @ ''7'') (fresh\<lparr>cookies := [''btab_7'' \<mapsto> Malformed]\<rparr>)
          = Some Malformed"
    and "bt_experiments two_tests ''7'' = Some shop" and "test_winner shop = []"
    and "cookie_consent two_tests = Consented" and "is_current_user_track shop"
    and "test_status shop = ''publish''"
    by (simp_all add: fixtures two_tests_def abstGetCookie_def cookie_consent_def)
  from malformed_record_stops_the_resolver [OF this, of on_page "[(''8'', on_page)]"]
  show ?thesis
    by (simp add: fixtures two_tests_def on_page_def resolver_defs report_defs)
qed

subsection \<open>The visit across a redirect\<close>







subsection \<open>The countdown timers\<close>



text \<open>A new key takes the place \<^verbatim>\<open>Object.entries\<close> gives it.\<close>

lemma timers_are_listed_as_entries:
  "timer (set_timer ''7'' 5 (fresh\<lparr>timer := [(''goal-7-1'', 3)]\<rparr>))
     = [(''7'', 5), (''goal-7-1'', 3)]
   \<and> timer (set_timer ''goal-7-2'' 4 (fresh\<lparr>timer := [(''7'', 5), (''goal-7-1'', 3)]\<rparr>))
     = [(''7'', 5), (''goal-7-1'', 3), (''goal-7-2'', 4)]
   \<and> timer (set_timer ''12'' 9
              (fresh\<lparr>timer := [(''7'', 5), (''30'', 1), (''goal-7-1'', 3)]\<rparr>))
     = [(''7'', 5), (''12'', 9), (''30'', 1), (''goal-7-1'', 3)]
   \<and> timer (set_timer ''30'' 0
              (fresh\<lparr>timer := [(''7'', 5), (''30'', 1), (''goal-7-1'', 3)]\<rparr>))
     = [(''7'', 5), (''30'', 0), (''goal-7-1'', 3)]"
  by (simp add: set_timer_def array_index_def digit_def)


















end
